theory Spec2Isabelle
  imports Complex_Main "HOL-Library.Word" "HOL-Library.Signed_Division"
begin

section \<open>Data model\<close>

text \<open>
  The renderer of \<^verbatim>\<open>src/src/RayTracer.cpp\<close>. A C++ \<^verbatim>\<open>double\<close> is modelled as a
  \<^typ>\<open>real\<close>: rounding, underflow and overflow are left out. The one place where the special
  values of IEEE arithmetic decide a branch, the quotients of \<^verbatim>\<open>getReflectance\<close>, is
  modelled with the type \<open>number\<close> below. \<^verbatim>\<open>int\<close> is \<^typ>\<open>int\<close> (no claim depends on
  its overflow) and the \<^verbatim>\<open>unsigned long long\<close> counter is a 64-bit word.
\<close>

text \<open>
  Modelled from the spec: \<^verbatim>\<open>Vector.h\<close> is missing. "3 real components; operations: add,
  subtract, scalar-multiply, dot product, normalize (unit length), length." The fields
  \<^verbatim>\<open>x\<close>, \<^verbatim>\<open>y\<close>, \<^verbatim>\<open>z\<close> are named \<open>vx\<close>, \<open>vy\<close>, \<open>vz\<close>. The spec leaves \<open>normalize\<close> of the
  zero vector undefined; here it is the zero vector, and no result below depends on its
  value there.
\<close>

record Vector =
  vx :: real
  vy :: real
  vz :: real

definition vplus :: "Vector \<Rightarrow> Vector \<Rightarrow> Vector" where
  "vplus a b = \<lparr>vx = vx a + vx b, vy = vy a + vy b, vz = vz a + vz b\<rparr>"

definition vminus :: "Vector \<Rightarrow> Vector \<Rightarrow> Vector" where
  "vminus a b = \<lparr>vx = vx a - vx b, vy = vy a - vy b, vz = vz a - vz b\<rparr>"

definition vtimes :: "Vector \<Rightarrow> real \<Rightarrow> Vector" where
  "vtimes a k = \<lparr>vx = vx a * k, vy = vy a * k, vz = vz a * k\<rparr>"

definition dot :: "Vector \<Rightarrow> Vector \<Rightarrow> real" where
  "dot a b = vx a * vx b + vy a * vy b + vz a * vz b"

definition vlength :: "Vector \<Rightarrow> real" where
  "vlength a = sqrt (dot a a)"

definition normalize :: "Vector \<Rightarrow> Vector" where
  "normalize a = \<lparr>vx = vx a / vlength a, vy = vy a / vlength a, vz = vz a / vlength a\<rparr>"

text \<open>
  Modelled from the spec: \<^verbatim>\<open>Color.h\<close> is missing. "3 real channels (no alpha);
  operations: add, scalar-multiply", not clamped. The default \<^verbatim>\<open>Color()\<close> is the
  zero colour ("background color (default/zero)"). The fields \<^verbatim>\<open>r\<close>, \<^verbatim>\<open>g\<close>, \<^verbatim>\<open>b\<close> are
  named \<open>cr\<close>, \<open>cg\<close>, \<open>cb\<close>.
\<close>

record Color =
  cr :: real
  cg :: real
  cb :: real

definition Color_default :: Color where
  "Color_default = \<lparr>cr = 0, cg = 0, cb = 0\<rparr>"

definition cplus :: "Color \<Rightarrow> Color \<Rightarrow> Color" where
  "cplus a b = \<lparr>cr = cr a + cr b, cg = cg a + cg b, cb = cb a + cb b\<rparr>"

definition ctimes :: "Color \<Rightarrow> real \<Rightarrow> Color" where
  "ctimes a k = \<lparr>cr = cr a * k, cg = cg a * k, cb = cb a * k\<rparr>"

text \<open>
  Modelled from the spec: \<^verbatim>\<open>Ray.h\<close>, \<^verbatim>\<open>Material.h\<close>, \<^verbatim>\<open>Light.h\<close>, \<^verbatim>\<open>Camera.h\<close>,
  \<^verbatim>\<open>Intersection.h\<close> and \<^verbatim>\<open>Object.h\<close> are missing; the fields are the ones
  \<^verbatim>\<open>RayTracer.cpp\<close> reads and writes. The constructor \<^verbatim>\<open>Ray(origin, direction,
  reflectionsRemaining, refractiveIndex)\<close> is the record with these four fields. A
  material is read through its getters only. \<open>getColor\<close> is what
  \<^verbatim>\<open>intersection.getColor()\<close> returns, the colour resolved at the hit point.
\<close>

record Ray =
  origin :: Vector
  direction :: Vector
  reflectionsRemaining :: int
  refractiveIndex :: real

record Material =
  getShininess :: real
  getReflectivity :: real
  getRefractiveIndex :: real

record Light =
  position :: Vector
  intensity :: real

record Camera =
  camPosition :: Vector
  camLookAt :: Vector
  camU :: Vector
  camV :: Vector

record Intersection =
  didIntersect :: bool
  distance :: real
  intersection :: Vector
  normal :: Vector
  material :: Material
  ray :: Ray
  getColor :: Color

text \<open>
  \<^verbatim>\<open>Object::intersect\<close> is virtual and its only implementation (\<^verbatim>\<open>Sphere.cpp\<close>) is
  missing, so an object is the function its \<^verbatim>\<open>intersect\<close> computes. Modelled from the
  spec: an intersection holds a "reference to the material and the originating ray",
  so \<open>intersect\<close> stores the ray it was called with.
\<close>

type_synonym Object = "Ray \<Rightarrow> Intersection"

definition intersect :: "Object \<Rightarrow> Ray \<Rightarrow> Intersection" where
  "intersect obj a = (obj a)\<lparr>ray := a\<rparr>"

text \<open>
  The macros \<^verbatim>\<open>NOT_SHINY\<close>, \<^verbatim>\<open>NOT_REFLECTIVE\<close>, \<^verbatim>\<open>NOT_REFRACTIVE\<close> and
  \<^verbatim>\<open>AIR_REFRACTIVE_INDEX\<close> are defined in the missing headers and \<^verbatim>\<open>RAND_MAX\<close> in the
  C library: they are parameters of the model.
\<close>

record macros =
  NOT_SHINY :: real
  NOT_REFLECTIVE :: real
  NOT_REFRACTIVE :: real
  AIR_REFRACTIVE_INDEX :: real
  RAND_MAX :: real

record RayTracer =
  width :: int
  height :: int
  maxReflections :: int
  superSamples :: int
  camera :: Camera
  imageScale :: real
  depthComplexity :: int
  dispersion :: real
  raysCast :: "64 word"
  objects :: "Object list"
  lights :: "Light list"

text \<open>\<^verbatim>\<open>numeric_limits<double>::max()\<close>, the largest finite double.\<close>

definition DBL_MAX :: real where
  "DBL_MAX = (2 - 1 / 2 ^ 52) * 2 ^ 1023"

text \<open>
  Modelled from the spec: \<^verbatim>\<open>Intersection(false)\<close>, the constructor of a miss; the
  fields other than the hit flag are not read before they are written.
\<close>

definition zeroVector :: Vector where
  "zeroVector = \<lparr>vx = 0, vy = 0, vz = 0\<rparr>"

definition Intersection_miss :: Intersection where
  "Intersection_miss =
     \<lparr>didIntersect = False, distance = 0, intersection = zeroVector, normal = zeroVector,
      material = \<lparr>getShininess = 0, getReflectivity = 0, getRefractiveIndex = 0\<rparr>,
      ray = \<lparr>origin = zeroVector, direction = zeroVector, reflectionsRemaining = 0,
             refractiveIndex = 0\<rparr>,
      getColor = Color_default\<rparr>"

section \<open>Intersection search and shadow test\<close>

text \<open>The loop of \<^verbatim>\<open>isInShadow\<close>: it returns at the first object that blocks.\<close>

fun isInShadow_loop :: "Object list \<Rightarrow> Ray \<Rightarrow> real \<Rightarrow> bool" where
  "isInShadow_loop [] a lightDistance = False"
| "isInShadow_loop (obj # objs) a lightDistance =
     (let i = intersect obj a in
      if didIntersect i \<and> distance i < lightDistance then True
      else isInShadow_loop objs a lightDistance)"

definition isInShadow :: "RayTracer \<Rightarrow> Ray \<Rightarrow> real \<Rightarrow> bool" where
  "isInShadow rt a lightDistance = isInShadow_loop (objects rt) a lightDistance"

text \<open>
  The full scan the spec compares \<^verbatim>\<open>isInShadow\<close> with (section 4.2): every object is
  tested, and the answer is whether any of them reported a hit strictly closer than
  the light.
\<close>

definition fullScanShadow :: "RayTracer \<Rightarrow> Ray \<Rightarrow> real \<Rightarrow> bool" where
  "fullScanShadow rt a lightDistance =
     fold (\<lambda>obj found. found \<or> (didIntersect (intersect obj a) \<and>
                                  distance (intersect obj a) < lightDistance))
          (objects rt) False"

text \<open>The loop of \<^verbatim>\<open>getClosestIntersection\<close>, with the closest hit so far.\<close>

fun getClosestIntersection_loop :: "Object list \<Rightarrow> Ray \<Rightarrow> Intersection \<Rightarrow> Intersection" where
  "getClosestIntersection_loop [] a closestIntersection = closestIntersection"
| "getClosestIntersection_loop (obj # objs) a closestIntersection =
     (let i = intersect obj a in
      if didIntersect i \<and> distance i < distance closestIntersection
      then getClosestIntersection_loop objs a i
      else getClosestIntersection_loop objs a closestIntersection)"

definition getClosestIntersection :: "RayTracer \<Rightarrow> Ray \<Rightarrow> Intersection" where
  "getClosestIntersection rt a =
     getClosestIntersection_loop (objects rt) a (Intersection_miss\<lparr>distance := DBL_MAX\<rparr>)"

section \<open>Fresnel reflectance\<close>

text \<open>
  The values a \<^verbatim>\<open>double\<close> expression takes when a division by zero is possible: a real
  number, an infinity or NaN, with the IEEE 754 rules for the special values and exact
  arithmetic on the finite ones. A zero carries no sign here, so \<open>x / 0\<close> takes the
  sign of \<open>x\<close>; \<^verbatim>\<open>getReflectance\<close> squares every quotient before it uses it, so the
  sign of an infinity never reaches its result.

  A special value arises here from an exact zero divisor only. In double arithmetic a
  product can also underflow to zero and a quotient or product overflow to an infinity;
  neither is modelled, so \<open>getReflectance\<close> below says what the code returns only where
  no intermediate result underflows or overflows, and nothing is proved here about the
  range of its finite results.
\<close>

datatype number = Finite real | PosInf | NegInf | NaN

fun nneg :: "number \<Rightarrow> number" where
  "nneg (Finite a) = Finite (- a)"
| "nneg PosInf = NegInf"
| "nneg NegInf = PosInf"
| "nneg NaN = NaN"

fun nplus :: "number \<Rightarrow> number \<Rightarrow> number" where
  "nplus (Finite a) (Finite b) = Finite (a + b)"
| "nplus NaN _ = NaN"
| "nplus _ NaN = NaN"
| "nplus PosInf NegInf = NaN"
| "nplus NegInf PosInf = NaN"
| "nplus PosInf _ = PosInf"
| "nplus NegInf _ = NegInf"
| "nplus (Finite a) b = b"

definition nminus :: "number \<Rightarrow> number \<Rightarrow> number" where
  "nminus a b = nplus a (nneg b)"

definition signed_inf :: "bool \<Rightarrow> number" where
  "signed_inf positive = (if positive then PosInf else NegInf)"

fun ntimes :: "number \<Rightarrow> number \<Rightarrow> number" where
  "ntimes (Finite a) (Finite b) = Finite (a * b)"
| "ntimes NaN _ = NaN"
| "ntimes _ NaN = NaN"
| "ntimes PosInf (Finite b) = (if b = 0 then NaN else signed_inf (0 < b))"
| "ntimes NegInf (Finite b) = (if b = 0 then NaN else signed_inf (b < 0))"
| "ntimes (Finite a) PosInf = (if a = 0 then NaN else signed_inf (0 < a))"
| "ntimes (Finite a) NegInf = (if a = 0 then NaN else signed_inf (a < 0))"
| "ntimes PosInf PosInf = PosInf"
| "ntimes PosInf NegInf = NegInf"
| "ntimes NegInf PosInf = NegInf"
| "ntimes NegInf NegInf = PosInf"

fun ndivide :: "number \<Rightarrow> number \<Rightarrow> number" where
  "ndivide (Finite a) (Finite b) =
     (if b \<noteq> 0 then Finite (a / b) else if a = 0 then NaN else signed_inf (0 < a))"
| "ndivide NaN _ = NaN"
| "ndivide _ NaN = NaN"
| "ndivide (Finite a) _ = Finite 0"
| "ndivide PosInf (Finite b) = signed_inf (0 \<le> b)"
| "ndivide NegInf (Finite b) = signed_inf (b < 0)"
| "ndivide PosInf PosInf = NaN"
| "ndivide PosInf NegInf = NaN"
| "ndivide NegInf PosInf = NaN"
| "ndivide NegInf NegInf = NaN"

fun nsqrt :: "number \<Rightarrow> number" where
  "nsqrt (Finite a) = (if a < 0 then NaN else Finite (sqrt a))"
| "nsqrt PosInf = PosInf"
| "nsqrt NegInf = NaN"
| "nsqrt NaN = NaN"

text \<open>\<open>ngreater a b\<close> is \<^verbatim>\<open>a > b\<close> and \<open>nle a b\<close> is \<^verbatim>\<open>a <= b\<close>: false when either is NaN.\<close>

fun ngreater :: "number \<Rightarrow> number \<Rightarrow> bool" where
  "ngreater (Finite a) (Finite b) = (b < a)"
| "ngreater NaN _ = False"
| "ngreater _ NaN = False"
| "ngreater PosInf b = (b \<noteq> PosInf)"
| "ngreater NegInf _ = False"
| "ngreater (Finite a) b = (b = NegInf)"

fun nle :: "number \<Rightarrow> number \<Rightarrow> bool" where
  "nle NaN _ = False"
| "nle _ NaN = False"
| "nle a b = (\<not> ngreater a b)"

definition getReflectance :: "Vector \<Rightarrow> Vector \<Rightarrow> real \<Rightarrow> real \<Rightarrow> number" where
  "getReflectance nrm incident n1 n2 =
     (let n = ndivide (Finite n1) (Finite n2);
          cosI = - dot nrm incident;
          sinT2 = ntimes (ntimes n n) (Finite (1 - cosI * cosI))
      in if ngreater sinT2 (Finite 1) then Finite 1
         else
           let cosT = nsqrt (nminus (Finite 1) sinT2);
               r0rth = ndivide (nminus (Finite (n1 * cosI)) (ntimes (Finite n2) cosT))
                               (nplus (Finite (n1 * cosI)) (ntimes (Finite n2) cosT));
               rPar = ndivide (nminus (Finite (n2 * cosI)) (ntimes (Finite n1) cosT))
                              (nplus (Finite (n2 * cosI)) (ntimes (Finite n1) cosT))
           in ndivide (nplus (ntimes r0rth r0rth) (ntimes rPar rPar)) (Finite 2))"

definition reflectVector :: "Vector \<Rightarrow> Vector \<Rightarrow> Vector" where
  "reflectVector v nrm = vminus (vtimes (vtimes nrm 2) (dot v nrm)) v"

section \<open>Direct lighting\<close>

definition getAmbientLighting :: "Intersection \<Rightarrow> Color \<Rightarrow> Color" where
  "getAmbientLighting i color = ctimes color 0.2"

text \<open>\<^verbatim>\<open>pow(dot, shininess)\<close> is called with a positive base only, where it is \<open>powr\<close>.\<close>

definition getSpecularLighting :: "macros \<Rightarrow> Intersection \<Rightarrow> Light \<Rightarrow> Color" where
  "getSpecularLighting m i light =
     (let specularColor = \<lparr>cr = 0, cg = 0, cb = 0\<rparr>;
          shininess = getShininess (material i)
      in if shininess = NOT_SHINY m then specularColor
         else
           let view = normalize (vminus (origin (ray i)) (intersection i));
               lightOffset = vminus (position light) (intersection i);
               reflected = reflectVector (normalize lightOffset) (normal i);
               d = dot view reflected
           in if d \<le> 0 then specularColor
              else
                let specularAmount = (d powr shininess) * intensity light
                in \<lparr>cr = specularAmount, cg = specularAmount, cb = specularAmount\<rparr>)"

text \<open>
  The loop of \<^verbatim>\<open>getDiffuseAndSpecularLighting\<close> over the lights, with the pair
  (\<^verbatim>\<open>diffuseColor\<close>, \<^verbatim>\<open>specularColor\<close>) accumulated so far. A light the surface faces
  away from, or that is in shadow, leaves both unchanged.
\<close>

fun diffuseAndSpecular_loop ::
  "macros \<Rightarrow> RayTracer \<Rightarrow> Intersection \<Rightarrow> Color \<Rightarrow> Light list \<Rightarrow> Color \<times> Color \<Rightarrow> Color \<times> Color"
where
  "diffuseAndSpecular_loop m rt i color [] acc = acc"
| "diffuseAndSpecular_loop m rt i color (light # ls) (diffuseColor, specularColor) =
     (let lightOffset = vminus (position light) (intersection i);
          lightDistance = vlength lightOffset;
          lightDirection = normalize lightOffset;
          dotProduct = dot (normal i) lightDirection
      in if dotProduct \<ge> 0 then
           let shadowRay = \<lparr>origin = intersection i, direction = lightDirection,
                            reflectionsRemaining = 1, refractiveIndex = refractiveIndex (ray i)\<rparr>
           in if isInShadow rt shadowRay lightDistance
              then diffuseAndSpecular_loop m rt i color ls (diffuseColor, specularColor)
              else diffuseAndSpecular_loop m rt i color ls
                     (ctimes (cplus diffuseColor (ctimes color dotProduct)) (intensity light),
                      cplus specularColor (getSpecularLighting m i light))
         else diffuseAndSpecular_loop m rt i color ls (diffuseColor, specularColor))"

definition getDiffuseAndSpecularLighting ::
  "macros \<Rightarrow> RayTracer \<Rightarrow> Intersection \<Rightarrow> Color \<Rightarrow> Color"
where
  "getDiffuseAndSpecularLighting m rt i color =
     (let (diffuseColor, specularColor) =
            diffuseAndSpecular_loop m rt i color (lights rt)
              (\<lparr>cr = 0, cg = 0, cb = 0\<rparr>, \<lparr>cr = 0, cg = 0, cb = 0\<rparr>)
      in cplus diffuseColor specularColor)"

section \<open>Recursive illumination\<close>

text \<open>
  An intersection that reports a hit was returned by some object's \<open>intersect\<close>, so it
  holds the ray that was searched for. The termination of \<open>castRay\<close> rests on this.
\<close>

lemma getClosestIntersection_loop_ray:
  "didIntersect (getClosestIntersection_loop objs a c) \<Longrightarrow>
   (didIntersect c \<longrightarrow> ray c = a) \<Longrightarrow>
   ray (getClosestIntersection_loop objs a c) = a"
  by (induction objs arbitrary: c) (auto simp: Let_def intersect_def split: if_splits)

lemma getClosestIntersection_ray:
  "didIntersect (getClosestIntersection rt a) \<Longrightarrow> ray (getClosestIntersection rt a) = a"
  unfolding getClosestIntersection_def
  by (rule getClosestIntersection_loop_ray) (simp_all add: Intersection_miss_def)

text \<open>
  The locals \<^verbatim>\<open>reflectivePercentage\<close> and \<^verbatim>\<open>refractivePercentage\<close> of
  \<^verbatim>\<open>getReflectiveRefractiveLighting\<close> after the "refractive index overrides" block, and
  the ray \<^verbatim>\<open>reflectedRay\<close> it constructs.
\<close>

definition reflectivePercentage :: "macros \<Rightarrow> Intersection \<Rightarrow> number" where
  "reflectivePercentage m i =
     (if getRefractiveIndex (material i) \<noteq> NOT_REFRACTIVE m
      then getReflectance (normal i) (direction (ray i)) (AIR_REFRACTIVE_INDEX m)
             (getRefractiveIndex (material i))
      else Finite (getReflectivity (material i)))"

definition refractivePercentage :: "macros \<Rightarrow> Intersection \<Rightarrow> number" where
  "refractivePercentage m i =
     (if getRefractiveIndex (material i) \<noteq> NOT_REFRACTIVE m
      then nminus (Finite 1) (reflectivePercentage m i)
      else Finite 0)"

definition reflectedRay :: "Intersection \<Rightarrow> Ray" where
  "reflectedRay i =
     \<lparr>origin = intersection i,
      direction = reflectVector (origin (ray i)) (normal i),
      reflectionsRemaining = reflectionsRemaining (ray i) - 1,
      refractiveIndex = refractiveIndex (ray i)\<rparr>"

text \<open>
  \<^verbatim>\<open>castRay\<close>, \<^verbatim>\<open>performLighting\<close> and \<^verbatim>\<open>getReflectiveRefractiveLighting\<close> call each
  other. Each takes the tracer and returns it with the counter \<^verbatim>\<open>raysCast\<close> updated.
  The locals \<^verbatim>\<open>refractiveIndex\<close> and \<^verbatim>\<open>reflectionsRemaining\<close> are named
  \<open>refractiveIdx\<close> and \<open>remaining\<close>. The block under \<^verbatim>\<open>if (refractivePercentage > 0)\<close>
  holds comments only, so \<^verbatim>\<open>refractiveColor\<close> stays the default colour in both
  branches.
\<close>

function castRay :: "macros \<Rightarrow> RayTracer \<Rightarrow> Ray \<Rightarrow> Color \<times> RayTracer"
  and performLighting :: "macros \<Rightarrow> RayTracer \<Rightarrow> Intersection \<Rightarrow> Color \<times> RayTracer"
  and getReflectiveRefractiveLighting ::
    "macros \<Rightarrow> RayTracer \<Rightarrow> Intersection \<Rightarrow> Color \<times> RayTracer"
where
  "castRay m rt a =
     (let rt1 = rt\<lparr>raysCast := raysCast rt + 1\<rparr>;
          i = getClosestIntersection rt1 a
      in if didIntersect i then performLighting m rt1 i else (Color_default, rt1))"
| "performLighting m rt i =
     (let color = getColor i;
          ambientColor = getAmbientLighting i color;
          diffuseAndSpecularColor = getDiffuseAndSpecularLighting m rt i color;
          (reflectedColor, rt') = getReflectiveRefractiveLighting m rt i
      in (cplus (cplus ambientColor diffuseAndSpecularColor) reflectedColor, rt'))"
| "getReflectiveRefractiveLighting m rt i =
     (let reflectivity = getReflectivity (material i);
          refractiveIdx = getRefractiveIndex (material i);
          remaining = reflectionsRemaining (ray i)
      in if (reflectivity = NOT_REFLECTIVE m \<and> refractiveIdx = NOT_REFRACTIVE m) \<or>
            remaining \<le> 0
         then (Color_default, rt)
         else if nle (refractivePercentage m i) (Finite 0) \<and>
                 nle (reflectivePercentage m i) (Finite 0)
         then (Color_default, rt)
         else
           let (reflectiveColor, rt') =
                 (if ngreater (reflectivePercentage m i) (Finite 0)
                  then let (c, rt') = castRay m rt (reflectedRay i)
                       in (ctimes c reflectivity, rt')
                  else (Color_default, rt));
               refractiveColor =
                 (if ngreater (refractivePercentage m i) (Finite 0) then Color_default
                  else Color_default)
           in (cplus reflectiveColor refractiveColor, rt'))"
  by pat_completeness auto
termination
  by (relation "measure (\<lambda>c. case c of
            Inl (m, rt, a) \<Rightarrow> 3 * nat (reflectionsRemaining a) + 3
          | Inr (Inl (m, rt, i)) \<Rightarrow> 3 * nat (reflectionsRemaining (ray i)) + 2
          | Inr (Inr (m, rt, i)) \<Rightarrow> 3 * nat (reflectionsRemaining (ray i)) + 1)")
     (auto simp: getClosestIntersection_ray reflectedRay_def)

text \<open>The three equations are unfolded by hand: as rewrite rules they do not stop.\<close>

declare castRay.simps [simp del] performLighting.simps [simp del]
  getReflectiveRefractiveLighting.simps [simp del]

section \<open>Sampling\<close>

text \<open>
  \<^verbatim>\<open>rand()\<close> reads and advances the state of the C library: \<open>rnd k\<close> is the value its
  \<open>k\<close>-th call returns, and the number of calls made so far is passed along with the
  tracer. The two calls in the constructor of \<^verbatim>\<open>disturbance\<close> are taken left to right.

  The loop of \<^verbatim>\<open>castRayAtPoint\<close> runs \<^verbatim>\<open>depthComplexity\<close> times (no time when it is not
  positive); \<open>castRay\<close> changes nothing of the tracer but \<^verbatim>\<open>raysCast\<close>, so the bound
  is the same at every test.
\<close>

fun castRayAtPoint_loop ::
  "macros \<Rightarrow> (nat \<Rightarrow> real) \<Rightarrow> Vector \<Rightarrow> nat \<Rightarrow> Color \<times> RayTracer \<times> nat \<Rightarrow> Color \<times> RayTracer \<times> nat"
where
  "castRayAtPoint_loop m rnd point 0 s = s"
| "castRayAtPoint_loop m rnd point (Suc k) (color, rt, n) =
     (let viewRay = \<lparr>origin = camPosition (camera rt),
                     direction = vminus point (camPosition (camera rt)),
                     reflectionsRemaining = maxReflections rt,
                     refractiveIndex = AIR_REFRACTIVE_INDEX m\<rparr>;
          (viewRay', n') =
            (if depthComplexity rt > 1 then
               let disturbance = \<lparr>vx = (dispersion rt / RAND_MAX m) * (1 * rnd n),
                                  vy = (dispersion rt / RAND_MAX m) * (1 * rnd (n + 1)),
                                  vz = 0\<rparr>;
                   moved = vplus (origin viewRay) disturbance
               in (viewRay\<lparr>origin := moved, direction := normalize (vminus point moved)\<rparr>,
                   n + 2)
             else (viewRay, n));
          (c, rt') = castRay m rt viewRay'
      in castRayAtPoint_loop m rnd point k
           (cplus color (ctimes c (1 / real_of_int (depthComplexity rt))), rt', n'))"

definition castRayAtPoint ::
  "macros \<Rightarrow> (nat \<Rightarrow> real) \<Rightarrow> RayTracer \<times> nat \<Rightarrow> Vector \<Rightarrow> Color \<times> RayTracer \<times> nat"
where
  "castRayAtPoint m rnd s point =
     castRayAtPoint_loop m rnd point (nat (depthComplexity (fst s)))
       (Color_default, fst s, snd s)"

text \<open>
  \<^verbatim>\<open>castRayForPixel\<close>: the points of the sub-sample grid on the image plane, in the
  order of the two loops, and the weighted sum of their colours. \<^verbatim>\<open>width / 2\<close> is the
  division of C, which truncates.
\<close>

definition imagePlanePoints :: "RayTracer \<Rightarrow> int \<Rightarrow> int \<Rightarrow> Vector list" where
  "imagePlanePoints rt px py =
     (let rayX = real_of_int (px - width rt sdiv 2) / 2;
          rayY = real_of_int (py - height rt sdiv 2) / 2;
          pixelWidth = rayX - real_of_int (px + 1 - width rt sdiv 2) / 2;
          sampleWidth = pixelWidth / real_of_int (superSamples rt);
          sampleStartX = rayX - pixelWidth / 2;
          sampleStartY = rayY - pixelWidth / 2
      in concat (map (\<lambda>sx. map (\<lambda>sy.
           vplus (vminus (camLookAt (camera rt))
                    (vtimes (vtimes (camU (camera rt)) (sampleStartX + real_of_int sx * sampleWidth))
                       (imageScale rt)))
                 (vtimes (vtimes (camV (camera rt)) (sampleStartY + real_of_int sy * sampleWidth))
                    (imageScale rt)))
           [0..superSamples rt - 1]) [0..superSamples rt - 1]))"

fun castRayForPixel_loop ::
  "macros \<Rightarrow> (nat \<Rightarrow> real) \<Rightarrow> real \<Rightarrow> Vector list \<Rightarrow> Color \<times> RayTracer \<times> nat \<Rightarrow> Color \<times> RayTracer \<times> nat"
where
  "castRayForPixel_loop m rnd sampleWeight [] s = s"
| "castRayForPixel_loop m rnd sampleWeight (point # points) (color, rt, n) =
     (let (c, rt', n') = castRayAtPoint m rnd (rt, n) point
      in castRayForPixel_loop m rnd sampleWeight points
           (cplus color (ctimes c sampleWeight), rt', n'))"

definition castRayForPixel ::
  "macros \<Rightarrow> (nat \<Rightarrow> real) \<Rightarrow> RayTracer \<times> nat \<Rightarrow> int \<Rightarrow> int \<Rightarrow> Color \<times> RayTracer \<times> nat"
where
  "castRayForPixel m rnd s px py =
     castRayForPixel_loop m rnd
       (1 / real_of_int (superSamples (fst s) * superSamples (fst s)))
       (imagePlanePoints (fst s) px py) (Color_default, fst s, snd s)"

text \<open>
  \<^verbatim>\<open>traceRays\<close>: the reset of \<^verbatim>\<open>depthComplexity\<close>, then every pixel, column by column
  (the columns are taken in order; the progress output and the writing of the file are
  left out). The image is the list of the pixels written, the last one first.
\<close>

definition resetDepthComplexity :: "RayTracer \<Rightarrow> RayTracer" where
  "resetDepthComplexity rt = (if dispersion rt < 0 then rt\<lparr>depthComplexity := 1\<rparr> else rt)"

fun traceRays_loop ::
  "macros \<Rightarrow> (nat \<Rightarrow> real) \<Rightarrow> (int \<times> int) list \<Rightarrow>
   ((int \<times> int) \<times> Color) list \<times> RayTracer \<times> nat \<Rightarrow> ((int \<times> int) \<times> Color) list \<times> RayTracer \<times> nat"
where
  "traceRays_loop m rnd [] s = s"
| "traceRays_loop m rnd ((px, py) # pixels) (img, rt, n) =
     (let (c, rt', n') = castRayForPixel m rnd (rt, n) px py
      in traceRays_loop m rnd pixels (((px, py), c) # img, rt', n'))"

definition traceRays ::
  "macros \<Rightarrow> (nat \<Rightarrow> real) \<Rightarrow> RayTracer \<times> nat \<Rightarrow> ((int \<times> int) \<times> Color) list \<times> RayTracer \<times> nat"
where
  "traceRays m rnd s =
     (let rt = resetDepthComplexity (fst s)
      in traceRays_loop m rnd
           (concat (map (\<lambda>px. map (\<lambda>py. (px, py)) [0..height rt - 1]) [0..width rt - 1]))
           ([], rt, snd s))"

section \<open>The diffuse term of the spec\<close>

text \<open>
  The diffuse term as section 4.3 of the spec states it: the sum, over the lights that
  face the surface and are not blocked, of \<open>(color * max 0 (normal \<cdot> lightDir)) *
  intensity\<close>. \<open>lightDirection\<close> and \<open>contributes\<close> are the direction and the two
  tests that \<^verbatim>\<open>getDiffuseAndSpecularLighting\<close> computes for a light.
\<close>

definition lightDirection :: "Intersection \<Rightarrow> Light \<Rightarrow> Vector" where
  "lightDirection i light = normalize (vminus (position light) (intersection i))"

definition contributes :: "RayTracer \<Rightarrow> Intersection \<Rightarrow> Light \<Rightarrow> bool" where
  "contributes rt i light =
     (dot (normal i) (lightDirection i light) \<ge> 0 \<and>
      \<not> isInShadow rt
           \<lparr>origin = intersection i, direction = lightDirection i light,
            reflectionsRemaining = 1, refractiveIndex = refractiveIndex (ray i)\<rparr>
           (vlength (vminus (position light) (intersection i))))"

definition diffuseSum :: "RayTracer \<Rightarrow> Intersection \<Rightarrow> Color \<Rightarrow> Color" where
  "diffuseSum rt i color =
     fold (\<lambda>light acc.
             cplus acc (ctimes (ctimes color (max 0 (dot (normal i) (lightDirection i light))))
                          (intensity light)))
          (filter (contributes rt i) (lights rt)) \<lparr>cr = 0, cg = 0, cb = 0\<rparr>"

section \<open>Hits below the sentinel\<close>

text \<open>
  The per-object intersections of a ray that report a hit at a distance strictly below
  the sentinel \<open>DBL_MAX\<close> that \<^verbatim>\<open>getClosestIntersection\<close> starts from, in the order of
  the objects.
\<close>

definition hitsBelowSentinel :: "RayTracer \<Rightarrow> Ray \<Rightarrow> Intersection list" where
  "hitsBelowSentinel rt a =
     filter (\<lambda>i. didIntersect i \<and> distance i < DBL_MAX)
       (map (\<lambda>obj. intersect obj a) (objects rt))"

section \<open>Example scenes\<close>

text \<open>
  Objects for the concrete instances below: \<open>hitAt d\<close> reports a hit at distance \<open>d\<close>
  for every ray and \<open>missing\<close> reports none. \<open>macros0\<close> sets the three sentinels to
  \<open>-1\<close> and the refractive index of air to \<open>1\<close>.
\<close>

definition hitAt :: "real \<Rightarrow> Object" where
  "hitAt d = (\<lambda>a. Intersection_miss\<lparr>didIntersect := True, distance := d\<rparr>)"

definition missing :: Object where
  "missing = (\<lambda>a. Intersection_miss)"

definition macros0 :: macros where
  "macros0 = \<lparr>NOT_SHINY = -1, NOT_REFLECTIVE = -1, NOT_REFRACTIVE = -1,
              AIR_REFRACTIVE_INDEX = 1, RAND_MAX = 2147483647\<rparr>"

definition ray0 :: Ray where
  "ray0 = \<lparr>origin = zeroVector, direction = \<lparr>vx = 0, vy = 0, vz = 1\<rparr>,
           reflectionsRemaining = 1, refractiveIndex = 1\<rparr>"

definition tracer0 :: "Object list \<Rightarrow> Light list \<Rightarrow> RayTracer" where
  "tracer0 objs ls =
     \<lparr>width = 1, height = 1, maxReflections = 1, superSamples = 1,
      camera = \<lparr>camPosition = zeroVector, camLookAt = zeroVector, camU = zeroVector,
                camV = zeroVector\<rparr>,
      imageScale = 1, depthComplexity = 1, dispersion = 5, raysCast = 0,
      objects = objs, lights = ls\<rparr>"

definition unitZ :: Vector where
  "unitZ = \<lparr>vx = 0, vy = 0, vz = 1\<rparr>"

definition unitX :: Vector where
  "unitX = \<lparr>vx = 1, vy = 0, vz = 0\<rparr>"

definition downZ :: Vector where
  "downZ = \<lparr>vx = 0, vy = 0, vz = -1\<rparr>"

text \<open>
  A matte white \<open>wall\<close> and a \<open>mirror\<close> of reflectivity \<open>1/2\<close>, both hit by every ray
  at distance 1, and a hit on glass of refractive index 3 and reflectivity \<open>1/2\<close>, seen
  head on from \<open>unitZ\<close> with one bounce left.
\<close>

definition white :: Color where
  "white = \<lparr>cr = 1, cg = 1, cb = 1\<rparr>"

definition matte :: Material where
  "matte = \<lparr>getShininess = -1, getReflectivity = -1, getRefractiveIndex = -1\<rparr>"

definition wall :: Object where
  "wall = (\<lambda>a. \<lparr>didIntersect = True, distance = 1, intersection = unitZ, normal = downZ,
                  material = matte, ray = a, getColor = white\<rparr>)"

definition glassHit :: Intersection where
  "glassHit =
     \<lparr>didIntersect = True, distance = 1, intersection = zeroVector, normal = unitZ,
      material = \<lparr>getShininess = -1, getReflectivity = 1 / 2, getRefractiveIndex = 3\<rparr>,
      ray = \<lparr>origin = unitZ, direction = downZ, reflectionsRemaining = 1,
             refractiveIndex = 1\<rparr>,
      getColor = white\<rparr>"

definition mirror :: Object where
  "mirror = (\<lambda>a. \<lparr>didIntersect = True, distance = 1, intersection = unitZ, normal = downZ,
                    material = \<lparr>getShininess = -1, getReflectivity = 1 / 2,
                                getRefractiveIndex = -1\<rparr>,
                    ray = a, getColor = white\<rparr>)"

definition mirrorRay :: Ray where
  "mirrorRay = \<lparr>origin = zeroVector, direction = unitZ, reflectionsRemaining = 2,
                refractiveIndex = 1\<rparr>"

text \<open>
  A matte white floor at the origin facing \<open>unitZ\<close>, with two lights straight above it
  of intensities 1 and 2; and a tracer with an empty scene, a one-pixel image,
  dispersion 0 and depth complexity 3.
\<close>

definition twoLights :: "Light list" where
  "twoLights = [\<lparr>position = unitZ, intensity = 1\<rparr>,
                \<lparr>position = \<lparr>vx = 0, vy = 0, vz = 2\<rparr>, intensity = 2\<rparr>]"

definition floorHit :: Intersection where
  "floorHit =
     \<lparr>didIntersect = True, distance = 1, intersection = zeroVector, normal = unitZ,
      material = matte,
      ray = \<lparr>origin = unitZ, direction = downZ, reflectionsRemaining = 1,
             refractiveIndex = 1\<rparr>,
      getColor = white\<rparr>"

definition blurTracer :: RayTracer where
  "blurTracer =
     \<lparr>width = 1, height = 1, maxReflections = 1, superSamples = 1,
      camera = \<lparr>camPosition = unitZ, camLookAt = zeroVector, camU = unitX,
                camV = \<lparr>vx = 0, vy = 1, vz = 0\<rparr>\<rparr>,
      imageScale = 1, depthComplexity = 3, dispersion = 0, raysCast = 0,
      objects = [], lights = []\<rparr>"

section \<open>The shadow test\<close>

lemma isInShadow_loop_iff:
  "isInShadow_loop objs a d =
     (\<exists>obj \<in> set objs. didIntersect (intersect obj a) \<and> distance (intersect obj a) < d)"
  by (induction objs) (auto simp: Let_def)

lemma fold_or_iff:
  "fold (\<lambda>obj found. found \<or> P obj) objs b = (b \<or> (\<exists>obj \<in> set objs. P obj))"
  by (induction objs arbitrary: b) auto

text \<open>
  C6. For every shadow ray and every light distance, \<open>isInShadow\<close> is true exactly when
  some object of the scene reports a hit for the ray at a distance strictly less than
  the light distance, and its early exit gives the same answer as the full scan over
  all objects.
\<close>

theorem isInShadow_full_scan:
  "isInShadow rt a lightDistance =
     (\<exists>obj \<in> set (objects rt). didIntersect (intersect obj a) \<and>
                                 distance (intersect obj a) < lightDistance) \<and>
   isInShadow rt a lightDistance = fullScanShadow rt a lightDistance"
  by (simp add: isInShadow_def fullScanShadow_def isInShadow_loop_iff fold_or_iff)

theorem isInShadow_full_scan_witness:
  "fullScanShadow (tracer0 [missing, hitAt 2, hitAt 7] []) ray0 5 \<and>
   \<not> fullScanShadow (tracer0 [missing, hitAt 2, hitAt 7] []) ray0 2"
  using isInShadow_full_scan [of "tracer0 [missing, hitAt 2, hitAt 7] []" ray0 5]
        isInShadow_full_scan [of "tracer0 [missing, hitAt 2, hitAt 7] []" ray0 2]
  by (simp add: isInShadow_def tracer0_def hitAt_def missing_def intersect_def
        Intersection_miss_def)

section \<open>The closest intersection\<close>

text \<open>
  The loop either keeps the intersection it started with, and then no object reports a
  hit closer than it, or returns the intersection of an object that reports a hit
  strictly closer than the start and no farther than any other hit.
\<close>

lemma getClosestIntersection_loop_char:
  "(getClosestIntersection_loop objs a c = c \<and>
     (\<forall>obj \<in> set objs. didIntersect (intersect obj a) \<longrightarrow>
        distance c \<le> distance (intersect obj a))) \<or>
   (\<exists>obj \<in> set objs. getClosestIntersection_loop objs a c = intersect obj a \<and>
      didIntersect (intersect obj a) \<and> distance (intersect obj a) < distance c \<and>
      (\<forall>obj' \<in> set objs. didIntersect (intersect obj' a) \<longrightarrow>
         distance (intersect obj a) \<le> distance (intersect obj' a)))"
  (is "?keeps objs c \<or> ?takes objs c")
proof (induction objs arbitrary: c)
  case Nil
  then show ?case by simp
next
  case (Cons obj objs)
  let ?i = "intersect obj a"
  show ?case
  proof (cases "didIntersect ?i \<and> distance ?i < distance c")
    case True
    then have step: "getClosestIntersection_loop (obj # objs) a c =
                     getClosestIntersection_loop objs a ?i"
      by (simp add: Let_def)
    from Cons.IH [of ?i] show ?thesis
    proof
      assume k: "?keeps objs ?i"
      have "?takes (obj # objs) c"
        by (rule bexI [of _ obj]) (use k True step in auto)
      then show ?thesis ..
    next
      assume "?takes objs ?i"
      then obtain o' where o': "o' \<in> set objs"
        "getClosestIntersection_loop objs a ?i = intersect o' a"
        "didIntersect (intersect o' a)" "distance (intersect o' a) < distance ?i"
        "\<forall>obj' \<in> set objs. didIntersect (intersect obj' a) \<longrightarrow>
           distance (intersect o' a) \<le> distance (intersect obj' a)"
        by blast
      have "?takes (obj # objs) c"
        by (rule bexI [of _ o']) (use o' True step in auto)
      then show ?thesis ..
    qed
  next
    case False
    then have step: "getClosestIntersection_loop (obj # objs) a c =
                     getClosestIntersection_loop objs a c"
      by (auto simp: Let_def)
    from Cons.IH [of c] show ?thesis
    proof
      assume k: "?keeps objs c"
      have "?keeps (obj # objs) c"
        using k False step by auto
      then show ?thesis ..
    next
      assume "?takes objs c"
      then obtain o' where o': "o' \<in> set objs"
        "getClosestIntersection_loop objs a c = intersect o' a"
        "didIntersect (intersect o' a)" "distance (intersect o' a) < distance c"
        "\<forall>obj' \<in> set objs. didIntersect (intersect obj' a) \<longrightarrow>
           distance (intersect o' a) \<le> distance (intersect obj' a)"
        by blast
      have "?takes (obj # objs) c"
        by (rule bexI [of _ o']) (use o' False step in auto)
      then show ?thesis ..
    qed
  qed
qed

lemma getClosestIntersection_cases:
  "(getClosestIntersection rt a = Intersection_miss\<lparr>distance := DBL_MAX\<rparr> \<and>
     (\<forall>obj \<in> set (objects rt). didIntersect (intersect obj a) \<longrightarrow>
        DBL_MAX \<le> distance (intersect obj a))) \<or>
   (\<exists>obj \<in> set (objects rt). getClosestIntersection rt a = intersect obj a \<and>
      didIntersect (intersect obj a) \<and> distance (intersect obj a) < DBL_MAX \<and>
      (\<forall>obj' \<in> set (objects rt). didIntersect (intersect obj' a) \<longrightarrow>
         distance (intersect obj a) \<le> distance (intersect obj' a)))"
  using getClosestIntersection_loop_char
          [of "objects rt" a "Intersection_miss\<lparr>distance := DBL_MAX\<rparr>"]
  by (simp add: getClosestIntersection_def)

lemma DBL_MAX_gt: "7 < DBL_MAX"
  by (simp add: DBL_MAX_def)

text \<open>
  C5, as the code has it. \<^verbatim>\<open>getClosestIntersection\<close> compares every hit with the
  sentinel distance it starts from, strictly. Among the per-object intersections that
  report a hit at a distance strictly below the sentinel \<open>DBL_MAX\<close> it returns one with
  the smallest distance; if no object reports such a hit it returns an intersection
  whose hit flag is false and whose distance is the sentinel.
\<close>

theorem getClosestIntersection_nearest:
  "(hitsBelowSentinel rt a = [] \<longrightarrow>
      getClosestIntersection rt a = Intersection_miss\<lparr>distance := DBL_MAX\<rparr> \<and>
      \<not> didIntersect (getClosestIntersection rt a) \<and>
      distance (getClosestIntersection rt a) = DBL_MAX) \<and>
   (hitsBelowSentinel rt a \<noteq> [] \<longrightarrow>
      getClosestIntersection rt a \<in> set (hitsBelowSentinel rt a) \<and>
      (\<forall>h \<in> set (hitsBelowSentinel rt a).
         distance (getClosestIntersection rt a) \<le> distance h))"
proof (intro conjI impI)
  assume e: "hitsBelowSentinel rt a = []"
  then have none: "\<And>obj. obj \<in> set (objects rt) \<Longrightarrow>
      \<not> (didIntersect (intersect obj a) \<and> distance (intersect obj a) < DBL_MAX)"
    by (auto simp: hitsBelowSentinel_def filter_empty_conv)
  with getClosestIntersection_cases [of rt a]
  show m: "getClosestIntersection rt a = Intersection_miss\<lparr>distance := DBL_MAX\<rparr>"
    by blast
  show "\<not> didIntersect (getClosestIntersection rt a)"
    by (simp add: m Intersection_miss_def)
  show "distance (getClosestIntersection rt a) = DBL_MAX"
    by (simp add: m)
next
  assume ne: "hitsBelowSentinel rt a \<noteq> []"
  then obtain o1 where o1: "o1 \<in> set (objects rt)" "didIntersect (intersect o1 a)"
      "distance (intersect o1 a) < DBL_MAX"
    by (auto simp: hitsBelowSentinel_def filter_empty_conv)
  with getClosestIntersection_cases [of rt a]
  obtain obj where obj: "obj \<in> set (objects rt)"
      "getClosestIntersection rt a = intersect obj a"
      "didIntersect (intersect obj a)" "distance (intersect obj a) < DBL_MAX"
      "\<forall>obj' \<in> set (objects rt). didIntersect (intersect obj' a) \<longrightarrow>
         distance (intersect obj a) \<le> distance (intersect obj' a)"
    by (metis not_less)
  show "getClosestIntersection rt a \<in> set (hitsBelowSentinel rt a)"
    using obj by (auto simp: hitsBelowSentinel_def)
  show "\<forall>h \<in> set (hitsBelowSentinel rt a). distance (getClosestIntersection rt a) \<le> distance h"
    using obj by (auto simp: hitsBelowSentinel_def)
qed

theorem getClosestIntersection_nearest_witness:
  "hitsBelowSentinel (tracer0 [hitAt 7, missing, hitAt 2] []) ray0 \<noteq> [] \<and>
   distance (getClosestIntersection (tracer0 [hitAt 7, missing, hitAt 2] []) ray0) \<le> 2 \<and>
   hitsBelowSentinel (tracer0 [missing] []) ray0 = [] \<and>
   \<not> didIntersect (getClosestIntersection (tracer0 [missing] []) ray0)"
proof -
  let ?T = "tracer0 [hitAt 7, missing, hitAt 2] []"
  have two: "(2::real) < DBL_MAX" using DBL_MAX_gt by simp
  have h: "hitsBelowSentinel ?T ray0 =
             [intersect (hitAt 7) ray0, intersect (hitAt 2) ray0]"
    using DBL_MAX_gt two
    by (simp add: hitsBelowSentinel_def tracer0_def hitAt_def missing_def intersect_def
          Intersection_miss_def)
  have e: "hitsBelowSentinel (tracer0 [missing] []) ray0 = []"
    by (simp add: hitsBelowSentinel_def tracer0_def missing_def intersect_def
          Intersection_miss_def)
  from getClosestIntersection_nearest [of ?T ray0] h
  have "distance (getClosestIntersection ?T ray0) \<le> distance (intersect (hitAt 2) ray0)"
    by simp
  then have "distance (getClosestIntersection ?T ray0) \<le> 2"
    by (simp add: hitAt_def intersect_def)
  moreover from getClosestIntersection_nearest [of "tracer0 [missing] []" ray0] e
  have "\<not> didIntersect (getClosestIntersection (tracer0 [missing] []) ray0)"
    by blast
  ultimately show ?thesis using h e by simp
qed

text \<open>
  C5 as stated fails for a hit at the sentinel distance itself: the object reports a
  hit, the comparison \<^verbatim>\<open>distance < closestIntersection.distance\<close> is false, and the
  result reports no hit.
\<close>

theorem getClosestIntersection_nearest_counterexample:
  "(\<exists>obj \<in> set (objects (tracer0 [hitAt DBL_MAX] [])). didIntersect (intersect obj ray0)) \<and>
   \<not> didIntersect (getClosestIntersection (tracer0 [hitAt DBL_MAX] []) ray0)"
  by (simp add: getClosestIntersection_def tracer0_def hitAt_def intersect_def Intersection_miss_def)

section \<open>A ray that hits nothing\<close>

text \<open>
  C8. For a ray for which no object of the scene reports an intersection, \<open>castRay\<close>
  returns the default (zero) colour: a miss is a result, not a failure.
\<close>

theorem castRay_miss:
  assumes "\<forall>obj \<in> set (objects rt). \<not> didIntersect (intersect obj a)"
  shows "fst (castRay m rt a) = Color_default"
proof -
  let ?rt1 = "rt\<lparr>raysCast := raysCast rt + 1\<rparr>"
  from assms getClosestIntersection_cases [of ?rt1 a]
  have "getClosestIntersection ?rt1 a = Intersection_miss\<lparr>distance := DBL_MAX\<rparr>"
    by auto
  then show ?thesis by (simp add: castRay.simps Intersection_miss_def)
qed

theorem castRay_miss_witness:
  "fst (castRay macros0 (tracer0 [missing, missing] []) ray0) = Color_default"
  using castRay_miss [of "tracer0 [missing, missing] []" ray0 macros0]
  by (simp add: tracer0_def missing_def intersect_def Intersection_miss_def)

section \<open>Properties of the Fresnel reflectance\<close>

text \<open>
  C9. Whenever \<open>sinT2 = (n1 / n2)\<^sup>2 * (1 - cosI\<^sup>2)\<close> is greater than 1, where
  \<open>cosI = - normal \<cdot> incident\<close>, \<open>getReflectance\<close> returns exactly 1 (total internal
  reflection). For \<open>n2 = 0\<close> the quotient \<open>n1 / n2\<close> is an infinity when \<open>n1\<close> is not
  zero, and \<open>sinT2\<close> is then greater than 1 exactly when \<open>1 - cosI\<^sup>2\<close> is positive.
\<close>

theorem getReflectance_total_internal:
  assumes "(n2 \<noteq> 0 \<and>
            1 < (n1 / n2) * (n1 / n2) * (1 - (- dot nrm incident) * (- dot nrm incident))) \<or>
           (n2 = 0 \<and> n1 \<noteq> 0 \<and> (- dot nrm incident) * (- dot nrm incident) < 1)"
  shows "getReflectance nrm incident n1 n2 = Finite 1"
  using assms
proof
  assume "n2 \<noteq> 0 \<and>
          1 < (n1 / n2) * (n1 / n2) * (1 - (- dot nrm incident) * (- dot nrm incident))"
  then show ?thesis
    by (simp add: getReflectance_def Let_def)
next
  assume z: "n2 = 0 \<and> n1 \<noteq> 0 \<and> (- dot nrm incident) * (- dot nrm incident) < 1"
  then have "ntimes (ndivide (Finite n1) (Finite n2)) (ndivide (Finite n1) (Finite n2)) = PosInf"
    by (cases "0 < n1") (simp_all add: signed_inf_def)
  with z show ?thesis
    by (simp add: getReflectance_def Let_def signed_inf_def)
qed

theorem getReflectance_total_internal_witness:
  "getReflectance unitZ unitX 2 1 = Finite 1 \<and> getReflectance unitZ unitX 2 0 = Finite 1"
  using getReflectance_total_internal [of 1 2 unitZ unitX]
        getReflectance_total_internal [of 0 2 unitZ unitX]
  by (simp add: dot_def unitZ_def unitX_def)

text \<open>
  C10 does not hold of the code. With \<open>n1 = n2 = 1\<close> and an incident direction at right
  angles to the normal, \<open>cosI\<close> is 0 and lies in \<open>[0, 1]\<close>; \<open>sinT2\<close> is 1, which the
  guard \<^verbatim>\<open>sinT2 > 1.0\<close> lets through; \<open>cosT\<close> is 0 and both ratios are \<open>0 / 0\<close>. The
  function returns NaN, which is no value in \<open>[0, 1]\<close>, and the refracted fraction
  \<open>1 - reflectance\<close> is NaN as well. Every operand here is an exact double, so no
  rounding is involved.
\<close>

theorem getReflectance_grazing_equal_indices:
  "(0::real) < 1 \<and> 0 \<le> - dot unitZ unitX \<and> - dot unitZ unitX \<le> 1 \<and>
   getReflectance unitZ unitX 1 1 = NaN \<and>
   \<not> (\<exists>r. getReflectance unitZ unitX 1 1 = Finite r \<and> 0 \<le> r \<and> r \<le> 1) \<and>
   nminus (Finite 1) (getReflectance unitZ unitX 1 1) = NaN"
  by (simp add: getReflectance_def Let_def dot_def unitZ_def unitX_def nminus_def)

section \<open>Reflection and refraction\<close>

lemma cplus_default: "cplus c Color_default = c"
  by (simp add: cplus_def Color_default_def)

lemma nle_not_ngreater: "nle p q \<Longrightarrow> \<not> ngreater p q"
  by (cases p; cases q) auto

text \<open>
  What \<^verbatim>\<open>getReflectiveRefractiveLighting\<close> returns, with the two early returns and the
  empty refraction block folded in: it makes at most one recursive call, on
  \<open>reflectedRay\<close>.
\<close>

lemma getReflectiveRefractiveLighting_unfold:
  "getReflectiveRefractiveLighting m rt i =
     (if (getReflectivity (material i) = NOT_REFLECTIVE m \<and>
          getRefractiveIndex (material i) = NOT_REFRACTIVE m) \<or>
         reflectionsRemaining (ray i) \<le> 0
      then (Color_default, rt)
      else if ngreater (reflectivePercentage m i) (Finite 0)
      then (ctimes (fst (castRay m rt (reflectedRay i))) (getReflectivity (material i)),
            snd (castRay m rt (reflectedRay i)))
      else (Color_default, rt))"
  by (subst getReflectiveRefractiveLighting.simps)
     (auto simp: Let_def cplus_default split: prod.splits dest: nle_not_ngreater)

text \<open>
  C3. For every intersection the refractive contribution is zero: the colour returned
  is the reflective contribution alone (the default colour when nothing is reflected),
  whatever the refractive percentage is.
\<close>

theorem refraction_contributes_nothing:
  "fst (getReflectiveRefractiveLighting m rt i) =
     (if (getReflectivity (material i) = NOT_REFLECTIVE m \<and>
          getRefractiveIndex (material i) = NOT_REFRACTIVE m) \<or>
         reflectionsRemaining (ray i) \<le> 0
      then Color_default
      else if ngreater (reflectivePercentage m i) (Finite 0)
      then ctimes (fst (castRay m rt (reflectedRay i))) (getReflectivity (material i))
      else Color_default)"
  by (subst getReflectiveRefractiveLighting.simps)
     (auto simp: Let_def cplus_default split: prod.splits dest: nle_not_ngreater)

lemma glassHit_reflectance: "reflectivePercentage macros0 glassHit = Finite (1 / 4)"
  by (simp add: reflectivePercentage_def glassHit_def macros0_def getReflectance_def Let_def
        dot_def unitZ_def downZ_def nminus_def)

lemma wall_castRay:
  "fst (castRay macros0 (tracer0 [wall] []) (reflectedRay glassHit)) = \<lparr>cr = 1/5, cg = 1/5, cb = 1/5\<rparr>"
  by (simp add: castRay.simps performLighting.simps getReflectiveRefractiveLighting.simps
      tracer0_def wall_def getClosestIntersection_def intersect_def Let_def
      Intersection_miss_def DBL_MAX_def getAmbientLighting_def getDiffuseAndSpecularLighting_def
      matte_def macros0_def white_def ctimes_def cplus_def Color_default_def)

theorem refraction_contributes_nothing_witness:
  "ngreater (refractivePercentage macros0 glassHit) (Finite 0) \<and>
   fst (getReflectiveRefractiveLighting macros0 (tracer0 [wall] []) glassHit) =
     ctimes (fst (castRay macros0 (tracer0 [wall] []) (reflectedRay glassHit))) (1 / 2)"
  using refraction_contributes_nothing [of macros0 "tracer0 [wall] []" glassHit]
    glassHit_reflectance
  by (simp add: refractivePercentage_def nminus_def)
     (simp add: glassHit_def macros0_def)

text \<open>
  C2 does not hold of the code. On the glass hit the material has a refractive index,
  the Fresnel reflectance is \<open>1/4\<close> and the reflected ray returns the colour
  \<open>(1/5, 1/5, 1/5)\<close>; \<^verbatim>\<open>castRay(reflectedRay) * reflectivity\<close> scales it by the
  material's reflectivity \<open>1/2\<close>, giving \<open>(1/10, 1/10, 1/10)\<close>, where the reflected
  fraction would give \<open>(1/20, 1/20, 1/20)\<close>.
\<close>

theorem reflection_scaled_by_reflectivity:
  "getRefractiveIndex (material glassHit) \<noteq> NOT_REFRACTIVE macros0 \<and>
   reflectivePercentage macros0 glassHit = Finite (1 / 4) \<and>
   getReflectivity (material glassHit) = 1 / 2 \<and>
   fst (castRay macros0 (tracer0 [wall] []) (reflectedRay glassHit)) =
     \<lparr>cr = 1 / 5, cg = 1 / 5, cb = 1 / 5\<rparr> \<and>
   fst (getReflectiveRefractiveLighting macros0 (tracer0 [wall] []) glassHit) =
     \<lparr>cr = 1 / 10, cg = 1 / 10, cb = 1 / 10\<rparr>"
proof -
  have a: "getRefractiveIndex (material glassHit) \<noteq> NOT_REFRACTIVE macros0"
    "getReflectivity (material glassHit) = 1 / 2"
    "getReflectivity (material glassHit) \<noteq> NOT_REFLECTIVE macros0"
    "reflectionsRemaining (ray glassHit) = 1"
    by (simp_all add: glassHit_def macros0_def)
  have b: "ngreater (reflectivePercentage macros0 glassHit) (Finite 0)"
    by (simp add: glassHit_reflectance)
  have "fst (getReflectiveRefractiveLighting macros0 (tracer0 [wall] []) glassHit) =
          ctimes (fst (castRay macros0 (tracer0 [wall] []) (reflectedRay glassHit)))
            (getReflectivity (material glassHit))"
    using a(1,3,4) b by (simp add: getReflectiveRefractiveLighting_unfold)
  then have "fst (getReflectiveRefractiveLighting macros0 (tracer0 [wall] []) glassHit) =
          \<lparr>cr = 1 / 10, cg = 1 / 10, cb = 1 / 10\<rparr>"
    unfolding wall_castRay a(2) by (simp add: ctimes_def)
  then show ?thesis
    using a(1,2) glassHit_reflectance wall_castRay by blast
qed

section \<open>The bounce budget\<close>

text \<open>
  \<^verbatim>\<open>raysCast\<close> counts the calls of \<open>castRay\<close>. A call with budget \<open>k\<close> adds one for
  itself and at most \<open>k\<close> (none when \<open>k\<close> is negative) for the calls nested in it.
\<close>

lemma raysCast_bound:
  "(\<exists>n \<le> nat (reflectionsRemaining a).
      raysCast (snd (castRay m rt a)) = raysCast rt + 1 + word_of_nat n)"
  "(\<exists>n \<le> nat (reflectionsRemaining (ray i)).
      raysCast (snd (performLighting m rt i)) = raysCast rt + word_of_nat n)"
  "(\<exists>n \<le> nat (reflectionsRemaining (ray i)).
      raysCast (snd (getReflectiveRefractiveLighting m rt i)) = raysCast rt + word_of_nat n)"
proof (induction m rt a and m rt i and m rt i
       rule: castRay_performLighting_getReflectiveRefractiveLighting.induct)
  case (1 m rt a)
  let ?rt1 = "rt\<lparr>raysCast := raysCast rt + 1\<rparr>"
  let ?i = "getClosestIntersection ?rt1 a"
  show ?case
  proof (cases "didIntersect ?i")
    case True
    from "1.IH" [OF refl refl True] obtain n where
      n: "n \<le> nat (reflectionsRemaining (ray ?i))"
         "raysCast (snd (performLighting m ?rt1 ?i)) = raysCast ?rt1 + word_of_nat n"
      by blast
    have "ray ?i = a" using True by (rule getClosestIntersection_ray)
    with n True show ?thesis
      by (subst castRay.simps) (auto simp: Let_def)
  next
    case False
    then have "raysCast (snd (castRay m rt a)) = raysCast rt + 1 + word_of_nat 0"
      by (subst castRay.simps) (simp add: Let_def)
    then show ?thesis by blast
  qed
next
  case (2 m rt i)
  from "2.IH" [OF refl refl refl] show ?case
    by (subst performLighting.simps) (auto simp: Let_def split: prod.splits)
next
  case (3 m rt i)
  let ?skip = "(getReflectivity (material i) = NOT_REFLECTIVE m \<and>
                getRefractiveIndex (material i) = NOT_REFRACTIVE m) \<or>
               reflectionsRemaining (ray i) \<le> 0"
  let ?bail = "nle (refractivePercentage m i) (Finite 0) \<and>
               nle (reflectivePercentage m i) (Finite 0)"
  show ?case
  proof (cases "\<not> ?skip \<and> \<not> ?bail \<and> ngreater (reflectivePercentage m i) (Finite 0)")
    case True
    then have rec: "snd (getReflectiveRefractiveLighting m rt i) =
                    snd (castRay m rt (reflectedRay i))"
      by (auto simp: getReflectiveRefractiveLighting_unfold)
    from True "3.IH" [OF refl refl refl] obtain n where
      n: "n \<le> nat (reflectionsRemaining (reflectedRay i))"
         "raysCast (snd (castRay m rt (reflectedRay i))) = raysCast rt + 1 + word_of_nat n"
      by blast
    from True have pos: "0 < reflectionsRemaining (ray i)" by auto
    have "Suc n \<le> nat (reflectionsRemaining (ray i))"
      using n(1) pos by (simp add: reflectedRay_def)
    moreover have "raysCast (snd (getReflectiveRefractiveLighting m rt i)) =
                   raysCast rt + word_of_nat (Suc n)"
      using n(2) rec by simp
    ultimately show ?thesis by blast
  next
    case False
    then have "snd (getReflectiveRefractiveLighting m rt i) = rt"
      by (auto simp: getReflectiveRefractiveLighting_unfold dest: nle_not_ngreater)
    then have "raysCast (snd (getReflectiveRefractiveLighting m rt i)) =
               raysCast rt + word_of_nat 0"
      by simp
    then show ?thesis by blast
  qed
qed

text \<open>
  C7. \<open>castRay\<close> is a total function: its recursion, through \<open>performLighting\<close> and
  \<open>getReflectiveRefractiveLighting\<close>, was shown to terminate on the bounce budget of
  the ray. For a ray with budget \<open>k \<ge> 0\<close> it makes at most \<open>k\<close> nested calls (the
  counter \<^verbatim>\<open>raysCast\<close> grows by one for the call itself and by at most \<open>k\<close> more); the
  reflected ray carries the budget of its parent less one; a reflective or refractive
  step makes no recursive call or exactly one, on the reflected ray; and no call is
  made once the budget is zero or less.
\<close>

theorem castRay_bounce_budget:
  assumes "reflectionsRemaining a = k" and "0 \<le> k"
  shows "(\<exists>n. int n \<le> k \<and> raysCast (snd (castRay m rt a)) = raysCast rt + 1 + word_of_nat n) \<and>
         reflectionsRemaining (reflectedRay i) = reflectionsRemaining (ray i) - 1 \<and>
         (getReflectiveRefractiveLighting m rt i = (Color_default, rt) \<or>
          getReflectiveRefractiveLighting m rt i =
            (ctimes (fst (castRay m rt (reflectedRay i))) (getReflectivity (material i)),
             snd (castRay m rt (reflectedRay i)))) \<and>
         (reflectionsRemaining (ray i) \<le> 0 \<longrightarrow>
            getReflectiveRefractiveLighting m rt i = (Color_default, rt))"
proof (intro conjI)
  from raysCast_bound(1) [of a m rt] obtain n where
    "n \<le> nat (reflectionsRemaining a)"
    "raysCast (snd (castRay m rt a)) = raysCast rt + 1 + word_of_nat n"
    by blast
  with assms show "\<exists>n. int n \<le> k \<and>
      raysCast (snd (castRay m rt a)) = raysCast rt + 1 + word_of_nat n"
    by (intro exI [of _ n]) simp
  show "reflectionsRemaining (reflectedRay i) = reflectionsRemaining (ray i) - 1"
    by (simp add: reflectedRay_def)
  show "getReflectiveRefractiveLighting m rt i = (Color_default, rt) \<or>
        getReflectiveRefractiveLighting m rt i =
          (ctimes (fst (castRay m rt (reflectedRay i))) (getReflectivity (material i)),
           snd (castRay m rt (reflectedRay i)))"
    by (simp add: getReflectiveRefractiveLighting_unfold)
  show "reflectionsRemaining (ray i) \<le> 0 \<longrightarrow>
          getReflectiveRefractiveLighting m rt i = (Color_default, rt)"
    by (simp add: getReflectiveRefractiveLighting_unfold)
qed

lemma mirror_castRay:
  "raysCast (snd (castRay macros0 (tracer0 [mirror] []) mirrorRay)) = 3"
  by (simp add: castRay.simps performLighting.simps getReflectiveRefractiveLighting_unfold
      tracer0_def mirror_def mirrorRay_def getClosestIntersection_def intersect_def Let_def
      Intersection_miss_def DBL_MAX_def macros0_def reflectivePercentage_def
      reflectedRay_def split: prod.splits)

theorem castRay_bounce_budget_witness:
  "(\<exists>n. int n \<le> 2 \<and>
      raysCast (snd (castRay macros0 (tracer0 [mirror] []) mirrorRay)) = 1 + word_of_nat n) \<and>
   raysCast (snd (castRay macros0 (tracer0 [mirror] []) mirrorRay)) = 3 \<and>
   reflectionsRemaining (reflectedRay (intersect mirror mirrorRay)) = 1 \<and>
   getReflectiveRefractiveLighting macros0 (tracer0 [mirror] [])
      (intersect mirror (mirrorRay\<lparr>reflectionsRemaining := 0\<rparr>)) =
     (Color_default, tracer0 [mirror] [])"
  using castRay_bounce_budget [of mirrorRay 2 macros0 "tracer0 [mirror] []"
          "intersect mirror mirrorRay"]
        castRay_bounce_budget [of mirrorRay 2 macros0 "tracer0 [mirror] []"
          "intersect mirror (mirrorRay\<lparr>reflectionsRemaining := 0\<rparr>)"]
        mirror_castRay
  by (simp add: mirrorRay_def intersect_def tracer0_def)

section \<open>The diffuse term\<close>

text \<open>
  What the loop of \<^verbatim>\<open>getDiffuseAndSpecularLighting\<close> accumulates: at every contributing
  light the whole sum so far, with the light's own term added, is multiplied by the
  light's intensity.
\<close>

lemma diffuse_loop_fold:
  "fst (diffuseAndSpecular_loop m rt i color ls (d, s)) =
     fold (\<lambda>light acc.
             ctimes (cplus acc (ctimes color (dot (normal i) (lightDirection i light))))
               (intensity light))
          (filter (contributes rt i) ls) d"
  by (induction ls arbitrary: d s)
     (auto simp: Let_def lightDirection_def contributes_def)

text \<open>
  C1 does not hold of the code. With two unblocked lights facing the floor head on, of
  intensities 1 and 2, the code accumulates \<open>(0 + white) * 1 = white\<close> and then
  \<open>(white + white) * 2\<close>, four times white: the second light's intensity has scaled the
  first light's contribution. The sum of the claim is \<open>white * 1 + white * 2\<close>, three
  times white.
\<close>

theorem diffuse_scaled_by_later_lights:
  "fst (diffuseAndSpecular_loop macros0 (tracer0 [] twoLights) floorHit white twoLights
          (\<lparr>cr = 0, cg = 0, cb = 0\<rparr>, \<lparr>cr = 0, cg = 0, cb = 0\<rparr>)) =
     \<lparr>cr = 4, cg = 4, cb = 4\<rparr> \<and>
   getDiffuseAndSpecularLighting macros0 (tracer0 [] twoLights) floorHit white =
     \<lparr>cr = 4, cg = 4, cb = 4\<rparr> \<and>
   diffuseSum (tracer0 [] twoLights) floorHit white = \<lparr>cr = 3, cg = 3, cb = 3\<rparr>"
  by (simp add: getDiffuseAndSpecularLighting_def diffuseSum_def contributes_def
      lightDirection_def twoLights_def floorHit_def tracer0_def isInShadow_def Let_def
      normalize_def vlength_def dot_def vminus_def unitZ_def zeroVector_def white_def
      ctimes_def cplus_def getSpecularLighting_def matte_def macros0_def)

section \<open>Depth complexity and dispersion\<close>

lemma castRay_empty:
  "objects rt = [] \<Longrightarrow> castRay m rt a = (Color_default, rt\<lparr>raysCast := raysCast rt + 1\<rparr>)"
  by (simp add: castRay.simps getClosestIntersection_def Intersection_miss_def)

text \<open>
  With a negative dispersion \<^verbatim>\<open>traceRays\<close> sets the depth complexity to 1, and
  \<^verbatim>\<open>castRayAtPoint\<close> then casts one ray, from the camera position through the point.
\<close>

lemma castRayAtPoint_pinhole:
  assumes "dispersion rt < 0"
  shows "depthComplexity (resetDepthComplexity rt) = 1 \<and>
         castRayAtPoint m rnd (resetDepthComplexity rt, n) point =
           (let viewRay = \<lparr>origin = camPosition (camera rt),
                           direction = vminus point (camPosition (camera rt)),
                           reflectionsRemaining = maxReflections rt,
                           refractiveIndex = AIR_REFRACTIVE_INDEX m\<rparr>;
                (c, rt') = castRay m (resetDepthComplexity rt) viewRay
            in (cplus Color_default (ctimes c 1), rt', n))"
  using assms
  by (simp add: resetDepthComplexity_def castRayAtPoint_def Let_def split: prod.splits)

text \<open>
  C4 does not hold of the code at dispersion 0. The test of \<^verbatim>\<open>traceRays\<close> is
  \<^verbatim>\<open>dispersion < 0\<close>, so with dispersion 0 a depth complexity of 3 is kept, and
  \<^verbatim>\<open>castRayAtPoint\<close> casts three rays for the one sub-sample of the one pixel, whatever
  \<^verbatim>\<open>rand()\<close> returns.
\<close>

theorem depthComplexity_kept_at_zero_dispersion:
  "dispersion blurTracer \<le> 0 \<and>
   depthComplexity (resetDepthComplexity blurTracer) = 3 \<and>
   length (imagePlanePoints (resetDepthComplexity blurTracer) 0 0) = 1 \<and>
   raysCast (fst (snd (castRayAtPoint macros0 rnd (resetDepthComplexity blurTracer, 0)
                         zeroVector))) = 3 \<and>
   raysCast (fst (snd (traceRays macros0 rnd (blurTracer, 0)))) = 3"
proof -
  have r: "resetDepthComplexity blurTracer = blurTracer"
    by (simp add: resetDepthComplexity_def blurTracer_def)
  have e: "objects blurTracer = []" by (simp add: blurTracer_def)
  have p: "imagePlanePoints blurTracer 0 0 = [\<lparr>vx = - (1 / 4), vy = 1 / 4, vz = 0\<rparr>]"
    by (simp add: imagePlanePoints_def blurTracer_def Let_def vplus_def vminus_def vtimes_def
        zeroVector_def unitX_def signed_divide_int_def)
  have c: "raysCast (fst (snd (castRayAtPoint macros0 rnd (blurTracer, n) point))) = 3"
    for n point
    by (simp add: castRayAtPoint_def blurTracer_def castRay_empty numeral_3_eq_3 Let_def)
  have f: "raysCast (fst (snd (castRayForPixel macros0 rnd (blurTracer, 0) 0 0))) = 3"
    using c [of 0 "\<lparr>vx = - (1 / 4), vy = 1 / 4, vz = 0\<rparr>"]
    by (auto simp: castRayForPixel_def p split: prod.splits)
  have wh: "width blurTracer = 1" "height blurTracer = 1"
    by (simp_all add: blurTracer_def)
  have t: "raysCast (fst (snd (traceRays macros0 rnd (blurTracer, 0)))) = 3"
    using f by (auto simp: traceRays_def r wh split: prod.splits)
  show ?thesis using r p c [of 0 zeroVector] t by (simp add: blurTracer_def)
qed

end
